theory Spec2Isabelle
  imports Main "HOL-Library.AList" "HOL-Library.Multiset"
begin

section \<open>The chat server of \<^verbatim>\<open>real_time_chat/main.py\<close>\<close>

text \<open>
  The module keeps one global dictionary, \<^verbatim>\<open>active_users\<close>, from the Socket.IO
  connection id (\<^verbatim>\<open>request.sid\<close>) to a small dictionary with the keys
  \<^verbatim>\<open>username\<close>, \<^verbatim>\<open>connected_at\<close> and, after a join, \<^verbatim>\<open>room\<close>.
  Five handlers read and change it and call the Socket.IO library
  (\<^verbatim>\<open>emit\<close>, \<^verbatim>\<open>join_room\<close>, \<^verbatim>\<open>leave_room\<close>).

  The embedding:
  \<^item> a Python \<^verbatim>\<open>str\<close> is a \<^typ>\<open>string\<close>; a character stands for a code point
    below 256;
  \<^item> the inner dictionary is the record \<open>user\<close>, the optional key \<^verbatim>\<open>room\<close> an
    \<^typ>\<open>string option\<close>;
  \<^item> \<^verbatim>\<open>active_users\<close> is an association list in insertion order, as a Python
    dictionary iterates: \<^const>\<open>AList.update\<close> overwrites a key where it stands and
    appends a new key at the end, \<^const>\<open>AList.delete\<close> removes a key;
  \<^item> the event payload \<^verbatim>\<open>data\<close> and the Flask \<^verbatim>\<open>session\<close> are maps from
    strings to strings; both come from outside and are arguments of the handlers, as
    are the clock (\<^verbatim>\<open>datetime.now().isoformat()\<close>) and the name that
    \<^verbatim>\<open>generate_guest_username\<close> draws;
  \<^item> the calls on the Socket.IO library are returned as a list, in the order made;
  \<^item> every handler body is a \<^verbatim>\<open>try\<close> block whose \<^verbatim>\<open>except Exception\<close>
    logs and returns: an exception is the field \<open>caught\<close> of the result, and what
    the body did before it raised stays done.
\<close>

subsection \<open>Data\<close>

type_synonym sid = string

record user =
  username :: string
  room :: "string option"
  connected_at :: string

type_synonym registry = "(sid \<times> user) list"

type_synonym session = "string \<rightharpoonup> string"

type_synonym data = "string \<rightharpoonup> string"

definition CHAT_ROOMS :: "string list" where
  "CHAT_ROOMS = [''General'', ''Random'', ''Tech'', ''Games'']"

text \<open>The four payloads the handlers emit, with their fields in the order of the source.\<close>

datatype event =
    Active_users "string list"
  | Status string string string
  | Message string string string string
  | Private_message string string string string

text \<open>
  \<^verbatim>\<open>emit(..., broadcast=True)\<close> addresses every connection, \<^verbatim>\<open>emit(..., room=r)\<close>
  the Socket.IO room \<open>r\<close>; the private path passes a connection id as the room.
\<close>

datatype target = Broadcast | To_room string

datatype call =
    Emit event target
  | Join_room sid string
  | Leave_room sid string

datatype error = KeyError string

record result =
  registry :: registry
  calls :: "call list"
  caught :: "error option"

subsection \<open>Helpers of the Python runtime\<close>

text \<open>\<^verbatim>\<open>d.get(k, default)\<close>\<close>

definition dict_get :: "('k \<rightharpoonup> 'v) \<Rightarrow> 'k \<Rightarrow> 'v \<Rightarrow> 'v" where
  "dict_get d k dflt = (case d k of None \<Rightarrow> dflt | Some v \<Rightarrow> v)"

text \<open>
  \<^verbatim>\<open>str.strip()\<close> removes leading and trailing whitespace. Below 256 Python's
  whitespace is U+0009..U+000D, U+001C..U+0020, U+0085 and U+00A0.
\<close>

definition is_space :: "char \<Rightarrow> bool" where
  "is_space c = ((of_char c :: nat) \<in> set [9, 10, 11, 12, 13, 28, 29, 30, 31, 32, 133, 160])"

definition strip :: "string \<Rightarrow> string" where
  "strip s = rev (dropWhile is_space (rev (dropWhile is_space s)))"

text \<open>\<^verbatim>\<open>[user["username"] for user in active_users.values()]\<close>\<close>

definition snapshot :: "registry \<Rightarrow> string list" where
  "snapshot au = map (\<lambda>(s, u). username u) au"

subsection \<open>The handlers\<close>

text \<open>
  \<^verbatim>\<open>connect\<close>: the session gets a guest name when it has none, the entry of the
  connection is written (without a room), and the list of all names is broadcast.
  The handler returns \<^verbatim>\<open>False\<close> exactly when \<open>caught\<close> is set.
\<close>

definition connect :: "registry \<Rightarrow> sid \<Rightarrow> session \<Rightarrow> string \<Rightarrow> string \<Rightarrow> session \<times> result" where
  "connect au sid session guest now =
     (let session' = (if session ''username'' = None then session(''username'' \<mapsto> guest)
                      else session)
      in case session' ''username'' of
           None \<Rightarrow>
             (session', \<lparr>registry = au, calls = [], caught = Some (KeyError ''username'')\<rparr>)
         | Some name \<Rightarrow>
             (let au' = AList.update sid
                          \<lparr>username = name, room = None, connected_at = now\<rparr> au
              in (session',
                  \<lparr>registry = au',
                   calls = [Emit (Active_users (snapshot au')) Broadcast],
                   caught = None\<rparr>)))"

text \<open>\<^verbatim>\<open>disconnect\<close>: the entry is deleted when there is one; the broadcast follows either way.\<close>

definition disconnect :: "registry \<Rightarrow> sid \<Rightarrow> result" where
  "disconnect au sid =
     (let au' = (case map_of au sid of None \<Rightarrow> au | Some u \<Rightarrow> AList.delete sid au)
      in \<lparr>registry = au',
          calls = [Emit (Active_users (snapshot au')) Broadcast],
          caught = None\<rparr>)"

text \<open>
  \<^verbatim>\<open>on_join\<close>: \<^verbatim>\<open>session["username"]\<close> raises when the key is missing; an unknown
  room returns at once; \<^verbatim>\<open>join_room\<close> is called before
  \<^verbatim>\<open>active_users[request.sid]["room"] = room\<close>, which raises when the connection
  has no entry.
\<close>

definition on_join :: "registry \<Rightarrow> sid \<Rightarrow> session \<Rightarrow> string \<Rightarrow> data \<Rightarrow> result" where
  "on_join au sid session now data =
     (case session ''username'' of
        None \<Rightarrow> \<lparr>registry = au, calls = [], caught = Some (KeyError ''username'')\<rparr>
      | Some name \<Rightarrow>
          (let r = dict_get data ''room'' ''General''
           in if r \<notin> set CHAT_ROOMS then \<lparr>registry = au, calls = [], caught = None\<rparr>
              else
                (case map_of au sid of
                   None \<Rightarrow>
                     \<lparr>registry = au, calls = [Join_room sid r], caught = Some (KeyError sid)\<rparr>
                 | Some u \<Rightarrow>
                     \<lparr>registry = AList.update sid (u\<lparr>room := Some r\<rparr>) au,
                      calls = [Join_room sid r,
                               Emit (Status (name @ '' has joined the room'') ''join'' now)
                                    (To_room r)],
                      caught = None\<rparr>)))"

text \<open>
  \<^verbatim>\<open>on_leave\<close>: no check of the room; \<^verbatim>\<open>pop("room", None)\<close> drops the key
  \<^verbatim>\<open>room\<close> of the entry, whatever it holds.
\<close>

definition on_leave :: "registry \<Rightarrow> sid \<Rightarrow> session \<Rightarrow> string \<Rightarrow> data \<Rightarrow> result" where
  "on_leave au sid session now data =
     (case session ''username'' of
        None \<Rightarrow> \<lparr>registry = au, calls = [], caught = Some (KeyError ''username'')\<rparr>
      | Some name \<Rightarrow>
          (let r = dict_get data ''room'' ''General'';
               au' = (case map_of au sid of
                        None \<Rightarrow> au
                      | Some u \<Rightarrow> AList.update sid (u\<lparr>room := None\<rparr>) au)
           in \<lparr>registry = au',
               calls = [Leave_room sid r,
                        Emit (Status (name @ '' has left the room'') ''leave'' now)
                             (To_room r)],
               caught = None\<rparr>))"

text \<open>
  The loop of the private path, \<^verbatim>\<open>for sid, user_data in active_users.items()\<close>:
  the first entry whose name is the target gets the emit, and the handler returns.
\<close>

fun private_scan :: "registry \<Rightarrow> string \<Rightarrow> string \<Rightarrow> string \<Rightarrow> string \<Rightarrow> call list" where
  "private_scan [] message name target_user timestamp = []"
| "private_scan ((s, u) # rest) message name target_user timestamp =
     (if username u = target_user
      then [Emit (Private_message message name target_user timestamp) (To_room s)]
      else private_scan rest message name target_user timestamp)"

definition handle_messages :: "registry \<Rightarrow> sid \<Rightarrow> session \<Rightarrow> string \<Rightarrow> data \<Rightarrow> result" where
  "handle_messages au sid session now data =
     (case session ''username'' of
        None \<Rightarrow> \<lparr>registry = au, calls = [], caught = Some (KeyError ''username'')\<rparr>
      | Some name \<Rightarrow>
          (let r = dict_get data ''room'' ''General'';
               msg_type = dict_get data ''type'' ''message'';
               message = strip (dict_get data ''msg'' [])
           in if message = [] then \<lparr>registry = au, calls = [], caught = None\<rparr>
              else if msg_type = ''private'' then
                (case data ''target'' of
                   None \<Rightarrow> \<lparr>registry = au, calls = [], caught = None\<rparr>
                 | Some target_user \<Rightarrow>
                     if target_user = [] then \<lparr>registry = au, calls = [], caught = None\<rparr>
                     else \<lparr>registry = au,
                           calls = private_scan au message name target_user now,
                           caught = None\<rparr>)
              else if r \<notin> set CHAT_ROOMS then \<lparr>registry = au, calls = [], caught = None\<rparr>
              else \<lparr>registry = au,
                    calls = [Emit (Message message name r now) (To_room r)],
                    caught = None\<rparr>))"

subsection \<open>Sequences of events\<close>

text \<open>
  One inbound event with what the runtime hands the handler: the connection id, the
  session of that connection, the clock, and the payload. The registry starts empty
  (\<^verbatim>\<open>active_users: Dict[str, dict] = {}\<close>).
\<close>

datatype inbound =
    Connect sid session string string
  | Disconnect sid
  | Join sid session string data
  | Leave sid session string data
  | Msg sid session string data

fun step :: "registry \<Rightarrow> inbound \<Rightarrow> result" where
  "step au (Connect sid session guest now) = snd (connect au sid session guest now)"
| "step au (Disconnect sid) = disconnect au sid"
| "step au (Join sid session now data) = on_join au sid session now data"
| "step au (Leave sid session now data) = on_leave au sid session now data"
| "step au (Msg sid session now data) = handle_messages au sid session now data"

fun run :: "registry \<Rightarrow> inbound list \<Rightarrow> registry" where
  "run au [] = au"
| "run au (e # es) = run (registry (step au e)) es"

subsection \<open>Notions the properties are stated with\<close>

text \<open>
  The connections that are open after a sequence of events, each with its identity,
  kept apart from the registry: a connect opens the connection under the name of its
  session, or under the fresh guest name when the session has none; a disconnect closes
  it; no other event opens or closes a connection.
\<close>

fun opened :: "(sid \<rightharpoonup> string) \<Rightarrow> inbound \<Rightarrow> (sid \<rightharpoonup> string)" where
  "opened m (Connect sid session guest now) =
     m(sid \<mapsto> (case session ''username'' of None \<Rightarrow> guest | Some name \<Rightarrow> name))"
| "opened m (Disconnect sid) = m(sid := None)"
| "opened m (Join sid session now data) = m"
| "opened m (Leave sid session now data) = m"
| "opened m (Msg sid session now data) = m"

definition open_conns :: "inbound list \<Rightarrow> (sid \<rightharpoonup> string)" where
  "open_conns es = foldl opened Map.empty es"

text \<open>The identities of the open connections, one occurrence for each connection.\<close>

definition identities :: "(sid \<rightharpoonup> string) \<Rightarrow> string multiset" where
  "identities m = image_mset (\<lambda>s. the (m s)) (mset_set (dom m))"

definition is_presence :: "inbound \<Rightarrow> bool" where
  "is_presence e =
     (case e of Connect sid session guest now \<Rightarrow> True | Disconnect sid \<Rightarrow> True | _ \<Rightarrow> False)"

text \<open>The name each connection id of the registry stands for.\<close>

definition names_of :: "registry \<Rightarrow> (sid \<rightharpoonup> string)" where
  "names_of au = map_option username \<circ> map_of au"

text \<open>Every entry's room, when it has one, is a configured room.\<close>

definition rooms_ok :: "registry \<Rightarrow> bool" where
  "rooms_ok au =
     list_all (\<lambda>(s, u). case room u of None \<Rightarrow> True | Some r \<Rightarrow> r \<in> set CHAT_ROOMS) au"

section \<open>Properties\<close>

subsection \<open>The runtime helpers\<close>

lemma dropWhile_all_iff: "(\<forall>x \<in> set (dropWhile P xs). P x) \<longleftrightarrow> (\<forall>x \<in> set xs. P x)"
  by (induction xs) auto

lemma strip_eq_Nil_iff: "strip s = [] \<longleftrightarrow> (\<forall>c \<in> set s. is_space c)"
  by (simp add: strip_def dropWhile_all_iff)

lemma strip_examples:
  "strip [] = []" "strip ''   '' = []" "strip [CHR 0x09, CHR 0x0A] = []"
  "strip '' hi  '' = ''hi''" "strip ''a b'' = ''a b''"
  by (simp_all add: strip_def is_space_def)

lemma user_room_None: "room u = None \<Longrightarrow> u\<lparr>room := None\<rparr> = u"
  by (cases u) simp

lemma update_present_keys:
  "map_of au k = Some u \<Longrightarrow> map fst (AList.update k v au) = map fst au"
  by (induction au) (auto split: if_splits)

lemma run_snoc: "run au (es @ [e]) = registry (step (run au es) e)"
  by (induction es arbitrary: au) simp_all

subsection \<open>Presence\<close>

lemma dom_names_of: "dom (names_of au) = set (map fst au)"
  by (auto simp: names_of_def dom_map_of_conv_image_fst dom_def map_of_eq_None_iff)

lemma snapshot_identities:
  assumes "distinct (map fst au)"
  shows "mset (snapshot au) = identities (names_of au)"
proof -
  have "map (\<lambda>s. the (names_of au s)) (map fst au) = snapshot au"
    using assms by (auto simp: snapshot_def names_of_def)
  moreover have "mset_set (dom (names_of au)) = mset (map fst au)"
    using mset_set_set [OF assms] by (simp add: dom_names_of)
  ultimately show ?thesis
    unfolding identities_def by (metis mset_map)
qed

lemma names_of_update:
  "names_of (AList.update k v au) = (names_of au)(k \<mapsto> username v)"
  by (rule ext) (simp add: names_of_def update_conv')

lemma names_of_update_same:
  "map_of au k = Some u \<Longrightarrow> username v = username u \<Longrightarrow>
   names_of (AList.update k v au) = names_of au"
  by (rule ext) (simp add: names_of_def update_conv')

lemma names_of_delete: "names_of (AList.delete k au) = (names_of au)(k := None)"
  by (rule ext) (simp add: names_of_def delete_conv')

lemma names_of_step: "names_of (registry (step au e)) = opened (names_of au) e"
proof (cases e)
  case (Connect sid session guest now)
  then show ?thesis
    by (auto simp: connect_def Let_def names_of_update split: option.splits)
next
  case (Disconnect sid)
  then show ?thesis
    by (auto simp: disconnect_def Let_def names_of_delete split: option.splits)
       (auto simp: names_of_def)
next
  case (Join sid session now data)
  then show ?thesis
    by (auto simp: on_join_def Let_def names_of_update_same split: option.splits)
next
  case (Leave sid session now data)
  then show ?thesis
    by (auto simp: on_leave_def Let_def names_of_update_same split: option.splits)
next
  case (Msg sid session now data)
  then show ?thesis
    by (auto simp: handle_messages_def Let_def split: option.splits)
qed

lemma registry_keys_step:
  "distinct (map fst au) \<Longrightarrow> distinct (map fst (registry (step au e)))"
  by (cases e)
     (auto simp: connect_def disconnect_def on_join_def on_leave_def handle_messages_def
         Let_def distinct_update distinct_delete split: option.splits)

lemma distinct_run: "distinct (map fst au) \<Longrightarrow> distinct (map fst (run au es))"
  by (induction es arbitrary: au) (simp_all add: registry_keys_step)

lemma names_of_run: "names_of (run au es) = foldl opened (names_of au) es"
  by (induction es arbitrary: au) (simp_all add: names_of_step)

lemma presence_calls:
  "is_presence e \<Longrightarrow>
   calls (step au e) = [Emit (Active_users (snapshot (registry (step au e)))) Broadcast]"
  by (cases e) (auto simp: is_presence_def connect_def disconnect_def Let_def split: option.splits)

text \<open>
  Claim C1. Start from the empty registry and let any events \<open>es\<close> happen. Whatever
  connect or disconnect \<open>e\<close> comes next, its handler makes exactly one call, the
  broadcast of \<^verbatim>\<open>active_users\<close>; the list it carries is read from the registry
  after the entry of the connection was written (connect) or deleted (disconnect), and
  as a multiset it is the identities of the connections open after \<open>e\<close>: every open
  connection once, no closed one.
\<close>

theorem presence_snapshot:
  assumes "is_presence e"
  shows "\<exists>us. calls (step (run [] es) e) = [Emit (Active_users us) Broadcast]
            \<and> us = snapshot (run [] (es @ [e]))
            \<and> mset us = identities (open_conns (es @ [e]))"
proof -
  have "distinct (map fst (run [] (es @ [e])))"
    by (rule distinct_run) simp
  then have "mset (snapshot (run [] (es @ [e]))) = identities (names_of (run [] (es @ [e])))"
    by (rule snapshot_identities)
  also have "names_of (run [] (es @ [e])) = open_conns (es @ [e])"
    unfolding open_conns_def names_of_run by (simp add: names_of_def)
  finally show ?thesis
    using presence_calls [OF assms] by (simp add: run_snoc)
qed

theorem presence_snapshot_witness:
  "is_presence (Disconnect ''s1'')
   \<and> calls (step (run [] [Connect ''s1'' [''username'' \<mapsto> ''alice''] ''Guest12001234'' ''t0'',
                          Connect ''s2'' Map.empty ''Guest12015678'' ''t1'',
                          Join ''s2'' [''username'' \<mapsto> ''Guest12015678''] ''t2''
                            [''room'' \<mapsto> ''Tech'']])
                   (Disconnect ''s1''))
       = [Emit (Active_users [''Guest12015678'']) Broadcast]
   \<and> mset [''Guest12015678'']
       = identities (open_conns
           [Connect ''s1'' [''username'' \<mapsto> ''alice''] ''Guest12001234'' ''t0'',
            Connect ''s2'' Map.empty ''Guest12015678'' ''t1'',
            Join ''s2'' [''username'' \<mapsto> ''Guest12015678''] ''t2'' [''room'' \<mapsto> ''Tech''],
            Disconnect ''s1''])"
  using presence_snapshot [of "Disconnect ''s1''"
      "[Connect ''s1'' [''username'' \<mapsto> ''alice''] ''Guest12001234'' ''t0'',
        Connect ''s2'' Map.empty ''Guest12015678'' ''t1'',
        Join ''s2'' [''username'' \<mapsto> ''Guest12015678''] ''t2'' [''room'' \<mapsto> ''Tech'']]"]
  by (simp add: is_presence_def connect_def disconnect_def on_join_def dict_get_def
        CHAT_ROOMS_def snapshot_def Let_def)

subsection \<open>Rooms stay within the configured set\<close>

lemma rooms_ok_iff:
  "rooms_ok au \<longleftrightarrow> (\<forall>s u r. (s, u) \<in> set au \<and> room u = Some r \<longrightarrow> r \<in> set CHAT_ROOMS)"
  by (auto simp: rooms_ok_def list_all_iff split: option.splits)

lemma rooms_ok_update:
  "rooms_ok au \<Longrightarrow> (case room v of None \<Rightarrow> True | Some r \<Rightarrow> r \<in> set CHAT_ROOMS) \<Longrightarrow>
   rooms_ok (AList.update k v au)"
  by (induction au) (auto simp: rooms_ok_def)

lemma rooms_ok_delete: "rooms_ok au \<Longrightarrow> rooms_ok (AList.delete k au)"
  by (induction au) (auto simp: rooms_ok_def)

lemma rooms_ok_step: "rooms_ok au \<Longrightarrow> rooms_ok (registry (step au e))"
  by (cases e)
     (auto simp: connect_def disconnect_def on_join_def on_leave_def handle_messages_def
         Let_def rooms_ok_update rooms_ok_delete split: option.splits)

lemma rooms_ok_run: "rooms_ok au \<Longrightarrow> rooms_ok (run au es)"
  by (induction es arbitrary: au) (simp_all add: rooms_ok_step)

text \<open>
  Claim C7. In every registry reached from the empty one by any sequence of connect,
  disconnect, join, leave and message events, with whatever session and payload each
  event carries, an entry that has a room has one of the configured rooms.
\<close>

theorem reachable_rooms_configured:
  "(s, u) \<in> set (run [] es) \<Longrightarrow> room u = Some r \<Longrightarrow> r \<in> set CHAT_ROOMS"
proof -
  have "rooms_ok (run [] es)"
    by (rule rooms_ok_run) (simp add: rooms_ok_def)
  then show "(s, u) \<in> set (run [] es) \<Longrightarrow> room u = Some r \<Longrightarrow> r \<in> set CHAT_ROOMS"
    by (auto simp: rooms_ok_iff)
qed

theorem reachable_rooms_configured_witness:
  "(''s1'', \<lparr>username = ''alice'', room = Some ''Tech'', connected_at = ''t0''\<rparr>)
     \<in> set (run [] [Connect ''s1'' [''username'' \<mapsto> ''alice''] ''Guest12001234'' ''t0'',
                    Join ''s1'' [''username'' \<mapsto> ''alice''] ''t1'' [''room'' \<mapsto> ''Lobby''],
                    Join ''s1'' [''username'' \<mapsto> ''alice''] ''t2'' [''room'' \<mapsto> ''Tech'']])
   \<and> room \<lparr>username = ''alice'', room = Some ''Tech'', connected_at = ''t0''\<rparr> = Some ''Tech''
   \<and> ''Tech'' \<in> set CHAT_ROOMS"
proof -
  let ?u = "\<lparr>username = ''alice'', room = Some ''Tech'', connected_at = ''t0''\<rparr>"
  let ?es = "[Connect ''s1'' [''username'' \<mapsto> ''alice''] ''Guest12001234'' ''t0'',
              Join ''s1'' [''username'' \<mapsto> ''alice''] ''t1'' [''room'' \<mapsto> ''Lobby''],
              Join ''s1'' [''username'' \<mapsto> ''alice''] ''t2'' [''room'' \<mapsto> ''Tech'']]"
  have a: "(''s1'', ?u) \<in> set (run [] ?es)"
    by (simp add: connect_def on_join_def dict_get_def CHAT_ROOMS_def Let_def)
  have b: "room ?u = Some ''Tech''" by simp
  from reachable_rooms_configured [OF a b] a b show ?thesis by simp
qed

subsection \<open>Joining\<close>

text \<open>
  Claim C3. A join whose room (\<^verbatim>\<open>General\<close> when the payload names none) is not a
  configured room changes nothing in the registry and makes no call on the library: no
  status event, nothing sent back to the client, no \<^verbatim>\<open>join_room\<close>. When the
  session holds a name the handler ends without an exception.
\<close>

theorem join_unknown_room:
  assumes "dict_get data ''room'' ''General'' \<notin> set CHAT_ROOMS"
  shows "registry (on_join au sid session now data) = au
       \<and> calls (on_join au sid session now data) = []
       \<and> (\<forall>name. session ''username'' = Some name
             \<longrightarrow> caught (on_join au sid session now data) = None)"
  using assms by (simp add: on_join_def split: option.splits)

theorem join_unknown_room_witness:
  "dict_get [''room'' \<mapsto> ''Lobby''] ''room'' ''General'' \<notin> set CHAT_ROOMS
   \<and> on_join [(''s1'', \<lparr>username = ''alice'', room = Some ''Tech'', connected_at = ''t0''\<rparr>)]
        ''s1'' [''username'' \<mapsto> ''alice''] ''t1'' [''room'' \<mapsto> ''Lobby'']
     = \<lparr>registry = [(''s1'', \<lparr>username = ''alice'', room = Some ''Tech'', connected_at = ''t0''\<rparr>)],
        calls = [], caught = None\<rparr>"
proof -
  let ?au = "[(''s1'', \<lparr>username = ''alice'', room = Some ''Tech'', connected_at = ''t0''\<rparr>)]"
  let ?session = "[''username'' \<mapsto> ''alice'']"
  let ?data = "[''room'' \<mapsto> ''Lobby'']"
  have h: "dict_get ?data ''room'' ''General'' \<notin> set CHAT_ROOMS"
    by (simp add: dict_get_def CHAT_ROOMS_def)
  have n: "?session ''username'' = Some ''alice''" by simp
  from join_unknown_room [where data = ?data and au = ?au and sid = "''s1''"
         and session = ?session and now = "''t1''", OF h] n
  have "registry (on_join ?au ''s1'' ?session ''t1'' ?data) = ?au
      \<and> calls (on_join ?au ''s1'' ?session ''t1'' ?data) = []
      \<and> caught (on_join ?au ''s1'' ?session ''t1'' ?data) = None"
    by blast
  then have "on_join ?au ''s1'' ?session ''t1'' ?data = \<lparr>registry = ?au, calls = [], caught = None\<rparr>"
    by (cases "on_join ?au ''s1'' ?session ''t1'' ?data") simp
  with h show ?thesis by simp
qed

text \<open>
  Claim C10. A join of a configured room by a connection that has no entry in the
  registry leaves the registry as it was: no entry is created and no event is emitted.
  The handler ends in its \<^verbatim>\<open>except\<close> branch. When the session holds a name, the
  exception is the \<^verbatim>\<open>KeyError\<close> of \<^verbatim>\<open>active_users[request.sid]\<close>, raised after
  \<^verbatim>\<open>join_room\<close> was called and before the \<^verbatim>\<open>emit\<close>.
\<close>

theorem join_without_entry:
  assumes "dict_get data ''room'' ''General'' \<in> set CHAT_ROOMS"
      and "map_of au sid = None"
  shows "registry (on_join au sid session now data) = au
       \<and> (\<forall>ev tg. Emit ev tg \<notin> set (calls (on_join au sid session now data)))
       \<and> caught (on_join au sid session now data) \<noteq> None
       \<and> (\<forall>name. session ''username'' = Some name
             \<longrightarrow> on_join au sid session now data =
                   \<lparr>registry = au,
                    calls = [Join_room sid (dict_get data ''room'' ''General'')],
                    caught = Some (KeyError sid)\<rparr>)"
  using assms by (simp add: on_join_def split: option.splits)

theorem join_without_entry_witness:
  "dict_get [''room'' \<mapsto> ''Tech''] ''room'' ''General'' \<in> set CHAT_ROOMS
   \<and> map_of [(''s1'', \<lparr>username = ''alice'', room = None, connected_at = ''t0''\<rparr>)] ''s7'' = None
   \<and> on_join [(''s1'', \<lparr>username = ''alice'', room = None, connected_at = ''t0''\<rparr>)]
        ''s7'' [''username'' \<mapsto> ''bob''] ''t1'' [''room'' \<mapsto> ''Tech'']
     = \<lparr>registry = [(''s1'', \<lparr>username = ''alice'', room = None, connected_at = ''t0''\<rparr>)],
        calls = [Join_room ''s7'' ''Tech''], caught = Some (KeyError ''s7'')\<rparr>"
proof -
  let ?au = "[(''s1'', \<lparr>username = ''alice'', room = None, connected_at = ''t0''\<rparr>)]"
  let ?session = "[''username'' \<mapsto> ''bob'']"
  let ?data = "[''room'' \<mapsto> ''Tech'']"
  have r: "dict_get ?data ''room'' ''General'' = ''Tech''" by (simp add: dict_get_def)
  have h1: "dict_get ?data ''room'' ''General'' \<in> set CHAT_ROOMS"
    by (simp add: r CHAT_ROOMS_def)
  have h2: "map_of ?au ''s7'' = None" by simp
  have n: "?session ''username'' = Some ''bob''" by simp
  from join_without_entry [where data = ?data and au = ?au and sid = "''s7''"
         and session = ?session and now = "''t1''", OF h1 h2] n
  have "on_join ?au ''s7'' ?session ''t1'' ?data =
          \<lparr>registry = ?au, calls = [Join_room ''s7'' (dict_get ?data ''room'' ''General'')],
           caught = Some (KeyError ''s7'')\<rparr>"
    by blast
  with h1 h2 show ?thesis by (simp add: r)
qed

text \<open>
  Once \<^verbatim>\<open>connect\<close> has run, the session of the connection holds a name: the later
  handlers of that connection read \<^verbatim>\<open>session["username"]\<close> without an exception.
\<close>

lemma connect_session_named:
  "\<exists>name. fst (connect au sid session guest now) ''username'' = Some name
        \<and> map_of (registry (snd (connect au sid session guest now))) sid =
            Some \<lparr>username = name, room = None, connected_at = now\<rparr>"
  by (auto simp: connect_def Let_def update_conv' split: option.splits)

subsection \<open>Disconnecting\<close>

text \<open>
  Claim C5. A disconnect of a connection that has no entry leaves the registry as it is
  and still makes exactly one call, the \<^verbatim>\<open>active_users\<close> broadcast of the unchanged
  list. Hence a second disconnect of the same connection, coming after a first, changes
  nothing and broadcasts the list once more.
\<close>

theorem disconnect_absent:
  "(map_of au sid = None \<longrightarrow>
      disconnect au sid =
        \<lparr>registry = au, calls = [Emit (Active_users (snapshot au)) Broadcast], caught = None\<rparr>)
   \<and> disconnect (registry (disconnect au sid)) sid =
        \<lparr>registry = registry (disconnect au sid),
         calls = [Emit (Active_users (snapshot (registry (disconnect au sid)))) Broadcast],
         caught = None\<rparr>"
  by (auto simp: disconnect_def Let_def delete_conv' split: option.splits)

theorem disconnect_absent_witness:
  "map_of [(''s1'', \<lparr>username = ''alice'', room = None, connected_at = ''t0''\<rparr>)] ''s9'' = None
   \<and> disconnect [(''s1'', \<lparr>username = ''alice'', room = None, connected_at = ''t0''\<rparr>)] ''s9''
     = \<lparr>registry = [(''s1'', \<lparr>username = ''alice'', room = None, connected_at = ''t0''\<rparr>)],
        calls = [Emit (Active_users [''alice'']) Broadcast], caught = None\<rparr>
   \<and> disconnect
        (registry (disconnect
           [(''s1'', \<lparr>username = ''alice'', room = None, connected_at = ''t0''\<rparr>)] ''s1''))
        ''s1''
     = \<lparr>registry = [], calls = [Emit (Active_users []) Broadcast], caught = None\<rparr>"
proof -
  let ?au = "[(''s1'', \<lparr>username = ''alice'', room = None, connected_at = ''t0''\<rparr>)]"
  have h: "map_of ?au ''s9'' = None" by simp
  have d: "registry (disconnect ?au ''s1'') = []"
    by (simp add: disconnect_def)
  from disconnect_absent [of ?au "''s9''"] h
  have "disconnect ?au ''s9'' =
          \<lparr>registry = ?au, calls = [Emit (Active_users (snapshot ?au)) Broadcast], caught = None\<rparr>"
    by blast
  moreover from disconnect_absent [of ?au "''s1''"]
  have "disconnect (registry (disconnect ?au ''s1'')) ''s1'' =
          \<lparr>registry = registry (disconnect ?au ''s1''),
           calls = [Emit (Active_users (snapshot (registry (disconnect ?au ''s1'')))) Broadcast],
           caught = None\<rparr>"
    by blast
  ultimately show ?thesis
    using h by (simp add: d snapshot_def)
qed

text \<open>
  Claim C9. Whatever the registry and the connection id, a disconnect makes one call
  only, the broadcast of \<^verbatim>\<open>active_users\<close> to all connections: no status event, no
  event addressed to a room, no \<^verbatim>\<open>leave_room\<close>, also when the entry that is
  deleted has a room.
\<close>

theorem disconnect_only_presence:
  "calls (disconnect au sid) =
     [Emit (Active_users (snapshot (registry (disconnect au sid)))) Broadcast]
   \<and> (\<forall>m ty ts tg. Emit (Status m ty ts) tg \<notin> set (calls (disconnect au sid)))
   \<and> (\<forall>ev r. Emit ev (To_room r) \<notin> set (calls (disconnect au sid)))
   \<and> (\<forall>s r. Leave_room s r \<notin> set (calls (disconnect au sid)))"
  by (simp add: disconnect_def Let_def)

theorem disconnect_only_presence_witness:
  "calls (disconnect
            [(''s1'', \<lparr>username = ''alice'', room = Some ''Tech'', connected_at = ''t0''\<rparr>),
             (''s2'', \<lparr>username = ''bob'', room = Some ''Tech'', connected_at = ''t1''\<rparr>)]
            ''s1'')
     = [Emit (Active_users [''bob'']) Broadcast]"
  using disconnect_only_presence
    [of "[(''s1'', \<lparr>username = ''alice'', room = Some ''Tech'', connected_at = ''t0''\<rparr>),
          (''s2'', \<lparr>username = ''bob'', room = Some ''Tech'', connected_at = ''t1''\<rparr>)]" "''s1''"]
  by (simp add: disconnect_def snapshot_def)

subsection \<open>Messages\<close>

text \<open>
  Claim C6. A message event whose \<^verbatim>\<open>msg\<close> is empty after \<^verbatim>\<open>strip()\<close> makes no
  call on the library (no room message, no private message, nothing to the sender) and
  leaves the registry unchanged. By \<open>strip_eq_Nil_iff\<close> these are the payloads whose
  \<^verbatim>\<open>msg\<close> is missing, empty, or made of whitespace only.
\<close>

theorem blank_message_dropped:
  assumes "strip (dict_get data ''msg'' []) = []"
  shows "registry (handle_messages au sid session now data) = au
       \<and> calls (handle_messages au sid session now data) = []"
  using assms by (simp add: handle_messages_def split: option.splits)

theorem blank_message_dropped_witness:
  "strip (dict_get [''room'' \<mapsto> ''Tech'', ''msg'' \<mapsto> [CHR '' '', CHR 0x09, CHR '' '']] ''msg'' []) = []
   \<and> handle_messages
        [(''s1'', \<lparr>username = ''alice'', room = Some ''Tech'', connected_at = ''t0''\<rparr>)]
        ''s1'' [''username'' \<mapsto> ''alice''] ''t1''
        [''room'' \<mapsto> ''Tech'', ''msg'' \<mapsto> [CHR '' '', CHR 0x09, CHR '' '']]
     = \<lparr>registry = [(''s1'', \<lparr>username = ''alice'', room = Some ''Tech'', connected_at = ''t0''\<rparr>)],
        calls = [], caught = None\<rparr>
   \<and> calls (handle_messages
        [(''s1'', \<lparr>username = ''alice'', room = Some ''Tech'', connected_at = ''t0''\<rparr>)]
        ''s1'' [''username'' \<mapsto> ''alice''] ''t1'' [''room'' \<mapsto> ''Tech''])
     = []"
proof -
  let ?au = "[(''s1'', \<lparr>username = ''alice'', room = Some ''Tech'', connected_at = ''t0''\<rparr>)]"
  let ?session = "[''username'' \<mapsto> ''alice'']"
  let ?data = "[''room'' \<mapsto> ''Tech'', ''msg'' \<mapsto> [CHR '' '', CHR 0x09, CHR '' '']]"
  let ?nomsg = "[''room'' \<mapsto> ''Tech'']"
  have h: "strip (dict_get ?data ''msg'' []) = []"
    by (simp add: dict_get_def strip_def is_space_def)
  have h': "strip (dict_get ?nomsg ''msg'' []) = []"
    by (simp add: dict_get_def strip_def)
  have c: "caught (handle_messages ?au ''s1'' ?session ''t1'' ?data) = None"
    by (simp add: handle_messages_def h)
  from blank_message_dropped [where data = ?data and au = ?au and sid = "''s1''"
         and session = ?session and now = "''t1''", OF h] c
  have "handle_messages ?au ''s1'' ?session ''t1'' ?data =
          \<lparr>registry = ?au, calls = [], caught = None\<rparr>"
    by (cases "handle_messages ?au ''s1'' ?session ''t1'' ?data") simp
  moreover from blank_message_dropped [where data = ?nomsg and au = ?au and sid = "''s1''"
         and session = ?session and now = "''t1''", OF h']
  have "calls (handle_messages ?au ''s1'' ?session ''t1'' ?nomsg) = []"
    by blast
  ultimately show ?thesis using h by simp
qed

lemma private_scan_first:
  "\<forall>(s', u') \<in> set pre. username u' \<noteq> t \<Longrightarrow> username u = t \<Longrightarrow>
   private_scan (pre @ (s, u) # post) m n t ts = [Emit (Private_message m n t ts) (To_room s)]"
  by (induction pre) auto

lemma private_scan_none:
  "t \<notin> username ` snd ` set au \<Longrightarrow> private_scan au m n t ts = []"
  by (induction au) auto

lemma private_scan_length: "length (private_scan au m n t ts) \<le> 1"
  by (induction au) auto

text \<open>
  Claim C2, as amended: the message must also survive \<^verbatim>\<open>strip()\<close>. For a message
  event of type \<^verbatim>\<open>private\<close> whose \<^verbatim>\<open>msg\<close> is not empty after \<^verbatim>\<open>strip()\<close>, sent
  on a connection whose session holds the name \<open>name\<close>:
  \<^item> the registry is unchanged and no exception is caught;
  \<^item> when the target is not empty and the registry is \<open>pre @ (s, u) # post\<close> with
    \<open>u\<close> the first entry named as the target, the only call is one
    \<^verbatim>\<open>private_message\<close> with the stripped text, the sender, the target and the
    timestamp, addressed to \<open>s\<close>; the entries of \<open>post\<close> get nothing, whatever their
    names;
  \<^item> when no entry is named as the target, or the target is missing or empty, the
    handler makes no call.
\<close>

theorem private_routing:
  assumes "session ''username'' = Some name"
      and "strip (dict_get data ''msg'' []) \<noteq> []"
      and "data ''type'' = Some ''private''"
  shows "registry (handle_messages au sid session now data) = au
       \<and> caught (handle_messages au sid session now data) = None
       \<and> (\<forall>t pre s u post.
             data ''target'' = Some t \<and> t \<noteq> [] \<and> au = pre @ (s, u) # post
             \<and> username u = t \<and> (\<forall>(s', u') \<in> set pre. username u' \<noteq> t)
             \<longrightarrow> calls (handle_messages au sid session now data) =
                   [Emit (Private_message (strip (dict_get data ''msg'' [])) name t now)
                         (To_room s)])
       \<and> (\<forall>t. data ''target'' = Some t \<and> t \<notin> username ` snd ` set au
             \<longrightarrow> calls (handle_messages au sid session now data) = [])
       \<and> (data ''target'' = None \<or> data ''target'' = Some []
             \<longrightarrow> calls (handle_messages au sid session now data) = [])"
proof -
  have ty: "dict_get data ''type'' ''message'' = ''private''"
    using assms(3) by (simp add: dict_get_def)
  show ?thesis
    using assms(1,2) ty
    by (auto simp: handle_messages_def Let_def private_scan_first private_scan_none
             split: option.splits)
qed

theorem private_routing_witness:
  "calls (handle_messages
            [(''s1'', \<lparr>username = ''alice'', room = None, connected_at = ''t0''\<rparr>),
             (''s2'', \<lparr>username = ''bob'', room = Some ''Tech'', connected_at = ''t1''\<rparr>),
             (''s3'', \<lparr>username = ''bob'', room = None, connected_at = ''t2''\<rparr>)]
            ''s1'' [''username'' \<mapsto> ''alice''] ''t3''
            [''type'' \<mapsto> ''private'', ''target'' \<mapsto> ''bob'', ''msg'' \<mapsto> '' psst ''])
     = [Emit (Private_message ''psst'' ''alice'' ''bob'' ''t3'') (To_room ''s2'')]
   \<and> calls (handle_messages
            [(''s1'', \<lparr>username = ''alice'', room = None, connected_at = ''t0''\<rparr>),
             (''s2'', \<lparr>username = ''bob'', room = Some ''Tech'', connected_at = ''t1''\<rparr>),
             (''s3'', \<lparr>username = ''bob'', room = None, connected_at = ''t2''\<rparr>)]
            ''s1'' [''username'' \<mapsto> ''alice''] ''t3''
            [''type'' \<mapsto> ''private'', ''target'' \<mapsto> ''carol'', ''msg'' \<mapsto> '' psst ''])
     = []"
proof -
  let ?session = "[''username'' \<mapsto> ''alice'']"
  let ?data = "[''type'' \<mapsto> ''private'', ''target'' \<mapsto> ''bob'', ''msg'' \<mapsto> '' psst '']"
  let ?data' = "[''type'' \<mapsto> ''private'', ''target'' \<mapsto> ''carol'', ''msg'' \<mapsto> '' psst '']"
  let ?pre = "[(''s1'', \<lparr>username = ''alice'', room = None, connected_at = ''t0''\<rparr>)]"
  let ?u = "\<lparr>username = ''bob'', room = Some ''Tech'', connected_at = ''t1''\<rparr>"
  let ?post = "[(''s3'', \<lparr>username = ''bob'', room = None, connected_at = ''t2''\<rparr>)]"
  let ?au = "?pre @ (''s2'', ?u) # ?post"
  have s: "strip (dict_get ?data ''msg'' []) = ''psst''"
    by (simp add: dict_get_def strip_def is_space_def)
  have s': "strip (dict_get ?data' ''msg'' []) = ''psst''"
    by (simp add: dict_get_def strip_def is_space_def)
  have h1: "?session ''username'' = Some ''alice''" by simp
  have h2: "strip (dict_get ?data ''msg'' []) \<noteq> []" by (simp add: s)
  have h2': "strip (dict_get ?data' ''msg'' []) \<noteq> []" by (simp add: s')
  have h3: "?data ''type'' = Some ''private''" by simp
  have h3': "?data' ''type'' = Some ''private''" by simp
  have "?data ''target'' = Some ''bob'' \<and> ''bob'' \<noteq> [] \<and> ?au = ?pre @ (''s2'', ?u) # ?post
        \<and> username ?u = ''bob'' \<and> (\<forall>(s', u') \<in> set ?pre. username u' \<noteq> ''bob'')"
    by simp
  with private_routing [where session = ?session and data = ?data and name = "''alice''"
         and au = ?au and sid = "''s1''" and now = "''t3''", OF h1 h2 h3]
  have "calls (handle_messages ?au ''s1'' ?session ''t3'' ?data)
        = [Emit (Private_message (strip (dict_get ?data ''msg'' [])) ''alice'' ''bob'' ''t3'')
                (To_room ''s2'')]"
    by blast
  moreover have "?data' ''target'' = Some ''carol'' \<and> ''carol'' \<notin> username ` snd ` set ?au"
    by simp
  with private_routing [where session = ?session and data = ?data' and name = "''alice''"
         and au = ?au and sid = "''s1''" and now = "''t3''", OF h1 h2' h3']
  have "calls (handle_messages ?au ''s1'' ?session ''t3'' ?data') = []"
    by blast
  ultimately show ?thesis by (simp add: s)
qed

text \<open>
  The claim as it stands asks for one private message whenever the type is
  \<^verbatim>\<open>private\<close> and the target names an entry. Here \<open>bob\<close> has the entry \<open>s2\<close> and
  a message \<open>hi\<close> reaches him, but the same event with a \<^verbatim>\<open>msg\<close> of two blanks is
  dropped by the check of line 183 before the private path is entered.
\<close>

theorem private_blank_counterexample:
  "calls (handle_messages
            [(''s2'', \<lparr>username = ''bob'', room = None, connected_at = ''t1''\<rparr>)]
            ''s1'' [''username'' \<mapsto> ''alice''] ''t3''
            [''type'' \<mapsto> ''private'', ''target'' \<mapsto> ''bob'', ''msg'' \<mapsto> ''hi''])
     = [Emit (Private_message ''hi'' ''alice'' ''bob'' ''t3'') (To_room ''s2'')]
   \<and> calls (handle_messages
            [(''s2'', \<lparr>username = ''bob'', room = None, connected_at = ''t1''\<rparr>)]
            ''s1'' [''username'' \<mapsto> ''alice''] ''t3''
            [''type'' \<mapsto> ''private'', ''target'' \<mapsto> ''bob'', ''msg'' \<mapsto> ''  ''])
     = []"
  by (simp add: handle_messages_def dict_get_def strip_def is_space_def Let_def)

subsection \<open>Leaving\<close>

text \<open>
  Claim C4, as amended: the room key is dropped whatever room it holds. For a leave
  event on a connection whose session holds the name \<open>name\<close>, with the room of the
  payload (\<^verbatim>\<open>General\<close> when it names none), member or not:
  \<^item> the calls are \<^verbatim>\<open>leave_room\<close> for that room and then exactly one status event
    of type \<^verbatim>\<open>leave\<close>, with the message of the name and the timestamp, addressed
    to that room; no exception is caught;
  \<^item> the registry keeps its connection ids in their order and every other entry as it
    is; the entry of the connection, when there is one, loses its room, also when that
    room is another one than the room of the payload;
  \<^item> the registry is unchanged when the connection has no entry or its entry has no room.
\<close>

theorem leave_effect:
  assumes "session ''username'' = Some name"
  shows "calls (on_leave au sid session now data) =
           [Leave_room sid (dict_get data ''room'' ''General''),
            Emit (Status (name @ '' has left the room'') ''leave'' now)
                 (To_room (dict_get data ''room'' ''General''))]
       \<and> caught (on_leave au sid session now data) = None
       \<and> map fst (registry (on_leave au sid session now data)) = map fst au
       \<and> map_of (registry (on_leave au sid session now data)) sid =
           map_option (\<lambda>u. u\<lparr>room := None\<rparr>) (map_of au sid)
       \<and> (\<forall>s. s \<noteq> sid \<longrightarrow> map_of (registry (on_leave au sid session now data)) s = map_of au s)
       \<and> ((\<forall>u. map_of au sid = Some u \<longrightarrow> room u = None)
            \<longrightarrow> registry (on_leave au sid session now data) = au)"
  using assms
  by (auto simp: on_leave_def Let_def update_conv' update_present_keys user_room_None update_triv
           split: option.splits)

theorem leave_effect_witness:
  "on_leave [(''s1'', \<lparr>username = ''alice'', room = None, connected_at = ''t0''\<rparr>)]
      ''s1'' [''username'' \<mapsto> ''alice''] ''t1'' [''room'' \<mapsto> ''Games'']
   = \<lparr>registry = [(''s1'', \<lparr>username = ''alice'', room = None, connected_at = ''t0''\<rparr>)],
      calls = [Leave_room ''s1'' ''Games'',
               Emit (Status ''alice has left the room'' ''leave'' ''t1'') (To_room ''Games'')],
      caught = None\<rparr>"
proof -
  let ?au = "[(''s1'', \<lparr>username = ''alice'', room = None, connected_at = ''t0''\<rparr>)]"
  let ?session = "[''username'' \<mapsto> ''alice'']"
  let ?data = "[''room'' \<mapsto> ''Games'']"
  let ?res = "on_leave ?au ''s1'' ?session ''t1'' ?data"
  have h: "?session ''username'' = Some ''alice''" by simp
  have r: "dict_get ?data ''room'' ''General'' = ''Games''" by (simp add: dict_get_def)
  have n: "\<forall>u. map_of ?au ''s1'' = Some u \<longrightarrow> room u = None" by simp
  from leave_effect [where session = ?session and name = "''alice''" and au = ?au
         and sid = "''s1''" and now = "''t1''" and data = ?data, OF h] n
  have "calls ?res =
          [Leave_room ''s1'' (dict_get ?data ''room'' ''General''),
           Emit (Status (''alice'' @ '' has left the room'') ''leave'' ''t1'')
                (To_room (dict_get ?data ''room'' ''General''))]
      \<and> caught ?res = None \<and> registry ?res = ?au"
    by blast
  then show ?thesis
    by (cases ?res) (simp add: r)
qed

text \<open>
  The claim as it stands makes the leave a no-op on the entry of a connection that is
  not a member of the room it leaves. Here the entry is in \<open>Tech\<close> and the leave names
  \<open>General\<close>: the entry loses its room.
\<close>

theorem leave_other_room_counterexample:
  "map_option room
     (map_of [(''s1'', \<lparr>username = ''alice'', room = Some ''Tech'', connected_at = ''t0''\<rparr>)] ''s1'')
     = Some (Some ''Tech'')
   \<and> registry (on_leave
        [(''s1'', \<lparr>username = ''alice'', room = Some ''Tech'', connected_at = ''t0''\<rparr>)]
        ''s1'' [''username'' \<mapsto> ''alice''] ''t1'' [''room'' \<mapsto> ''General''])
     = [(''s1'', \<lparr>username = ''alice'', room = None, connected_at = ''t0''\<rparr>)]
   \<and> registry (on_leave
        [(''s1'', \<lparr>username = ''alice'', room = Some ''Tech'', connected_at = ''t0''\<rparr>)]
        ''s1'' [''username'' \<mapsto> ''alice''] ''t1'' [''room'' \<mapsto> ''General''])
     \<noteq> [(''s1'', \<lparr>username = ''alice'', room = Some ''Tech'', connected_at = ''t0''\<rparr>)]"
  by (simp add: on_leave_def dict_get_def Let_def)

subsection \<open>Joining and then leaving\<close>

text \<open>
  Claim C8, as amended: the room is cleared, which is the state before the join only
  when the entry had no room then. For a connection with the entry \<open>u\<close> whose session
  holds the name \<open>name\<close>, and a configured room \<open>r\<close>, a join of \<open>r\<close> followed at once
  by a leave of \<open>r\<close>:
  \<^item> the join calls \<^verbatim>\<open>join_room\<close> and emits one status event of type
    \<^verbatim>\<open>join\<close> to \<open>r\<close>, and the entry then has the room \<open>r\<close>;
  \<^item> the leave calls \<^verbatim>\<open>leave_room\<close> and emits one status event of type
    \<^verbatim>\<open>leave\<close> to \<open>r\<close>;
  \<^item> afterwards the registry is the one before the join with the room of \<open>u\<close> cleared;
    it is the registry before the join when \<open>u\<close> had no room.
\<close>

theorem join_then_leave:
  assumes "session ''username'' = Some name"
      and "map_of au sid = Some u"
      and "r \<in> set CHAT_ROOMS"
      and "dict_get data ''room'' ''General'' = r"
      and "dict_get data' ''room'' ''General'' = r"
  shows "calls (on_join au sid session now data) =
           [Join_room sid r,
            Emit (Status (name @ '' has joined the room'') ''join'' now) (To_room r)]
       \<and> map_of (registry (on_join au sid session now data)) sid = Some (u\<lparr>room := Some r\<rparr>)
       \<and> calls (on_leave (registry (on_join au sid session now data)) sid session now' data') =
           [Leave_room sid r,
            Emit (Status (name @ '' has left the room'') ''leave'' now') (To_room r)]
       \<and> registry (on_leave (registry (on_join au sid session now data)) sid session now' data') =
           AList.update sid (u\<lparr>room := None\<rparr>) au
       \<and> map_of (registry (on_leave (registry (on_join au sid session now data))
                    sid session now' data')) sid = Some (u\<lparr>room := None\<rparr>)
       \<and> (room u = None \<longrightarrow>
            registry (on_leave (registry (on_join au sid session now data)) sid session now' data')
              = au)"
  using assms
  by (auto simp: on_join_def on_leave_def Let_def update_conv' user_room_None update_triv)

theorem join_then_leave_witness:
  "registry (on_leave
      (registry (on_join
         [(''s1'', \<lparr>username = ''alice'', room = None, connected_at = ''t0''\<rparr>),
          (''s2'', \<lparr>username = ''bob'', room = Some ''Tech'', connected_at = ''t1''\<rparr>)]
         ''s1'' [''username'' \<mapsto> ''alice''] ''t2'' [''room'' \<mapsto> ''Tech'']))
      ''s1'' [''username'' \<mapsto> ''alice''] ''t3'' [''room'' \<mapsto> ''Tech''])
   = [(''s1'', \<lparr>username = ''alice'', room = None, connected_at = ''t0''\<rparr>),
      (''s2'', \<lparr>username = ''bob'', room = Some ''Tech'', connected_at = ''t1''\<rparr>)]
   \<and> calls (on_join
         [(''s1'', \<lparr>username = ''alice'', room = None, connected_at = ''t0''\<rparr>),
          (''s2'', \<lparr>username = ''bob'', room = Some ''Tech'', connected_at = ''t1''\<rparr>)]
         ''s1'' [''username'' \<mapsto> ''alice''] ''t2'' [''room'' \<mapsto> ''Tech''])
   = [Join_room ''s1'' ''Tech'',
      Emit (Status ''alice has joined the room'' ''join'' ''t2'') (To_room ''Tech'')]
   \<and> calls (on_leave
      (registry (on_join
         [(''s1'', \<lparr>username = ''alice'', room = None, connected_at = ''t0''\<rparr>),
          (''s2'', \<lparr>username = ''bob'', room = Some ''Tech'', connected_at = ''t1''\<rparr>)]
         ''s1'' [''username'' \<mapsto> ''alice''] ''t2'' [''room'' \<mapsto> ''Tech'']))
      ''s1'' [''username'' \<mapsto> ''alice''] ''t3'' [''room'' \<mapsto> ''Tech''])
   = [Leave_room ''s1'' ''Tech'',
      Emit (Status ''alice has left the room'' ''leave'' ''t3'') (To_room ''Tech'')]"
proof -
  let ?u = "\<lparr>username = ''alice'', room = None, connected_at = ''t0''\<rparr>"
  let ?au = "[(''s1'', ?u),
              (''s2'', \<lparr>username = ''bob'', room = Some ''Tech'', connected_at = ''t1''\<rparr>)]"
  let ?session = "[''username'' \<mapsto> ''alice'']"
  let ?data = "[''room'' \<mapsto> ''Tech'']"
  have h1: "?session ''username'' = Some ''alice''" by simp
  have h2: "map_of ?au ''s1'' = Some ?u" by simp
  have h3: "''Tech'' \<in> set CHAT_ROOMS" by (simp add: CHAT_ROOMS_def)
  have h4: "dict_get ?data ''room'' ''General'' = ''Tech''" by (simp add: dict_get_def)
  have h5: "room ?u = None" by simp
  from join_then_leave [where session = ?session and name = "''alice''" and au = ?au
         and sid = "''s1''" and u = ?u and r = "''Tech''" and data = ?data and data' = ?data
         and now = "''t2''" and now' = "''t3''", OF h1 h2 h3 h4 h4] h5
  show ?thesis by simp
qed

text \<open>
  The claim as it stands holds of every connected session. Here the entry is in
  \<open>Tech\<close> before it joins \<open>General\<close>; after the leave of \<open>General\<close> it has no room,
  which is not its state before the join.
\<close>

theorem join_then_leave_counterexample:
  "''General'' \<in> set CHAT_ROOMS
   \<and> map_of (registry (on_leave
        (registry (on_join
           [(''s1'', \<lparr>username = ''alice'', room = Some ''Tech'', connected_at = ''t0''\<rparr>)]
           ''s1'' [''username'' \<mapsto> ''alice''] ''t1'' [''room'' \<mapsto> ''General'']))
        ''s1'' [''username'' \<mapsto> ''alice''] ''t2'' [''room'' \<mapsto> ''General''])) ''s1''
     = Some \<lparr>username = ''alice'', room = None, connected_at = ''t0''\<rparr>
   \<and> map_of (registry (on_leave
        (registry (on_join
           [(''s1'', \<lparr>username = ''alice'', room = Some ''Tech'', connected_at = ''t0''\<rparr>)]
           ''s1'' [''username'' \<mapsto> ''alice''] ''t1'' [''room'' \<mapsto> ''General'']))
        ''s1'' [''username'' \<mapsto> ''alice''] ''t2'' [''room'' \<mapsto> ''General''])) ''s1''
     \<noteq> map_of [(''s1'', \<lparr>username = ''alice'', room = Some ''Tech'', connected_at = ''t0''\<rparr>)] ''s1''"
  by (simp add: on_join_def on_leave_def dict_get_def CHAT_ROOMS_def Let_def)


end
